theory Spec2Isabelle
  imports Main
begin

section \<open>The host reflection model\<close>

text \<open>
  The program walks Go type descriptors (\<open>reflect.Type\<close>). A descriptor has a kind, a
  printed name (\<open>t.String()\<close>), an element descriptor for pointers, slices, arrays and maps,
  and a field list for structs. Go types may refer to themselves through pointers, slices
  and maps, so a struct descriptor carries only the identity of its declaration and its
  fields are looked up in the table of declarations of the program (\<open>structFields\<close>
  below).
\<close>

datatype LeafKind =
    KBool
  | KInt | KInt8 | KInt16 | KInt32 | KInt64
  | KUint | KUint8 | KUint16 | KUint32 | KUint64 | KUintptr
  | KFloat32 | KFloat64 | KComplex64 | KComplex128
  | KChan | KFunc | KInterface | KString | KUnsafePointer

text \<open>\<open>reflect.Kind\<close>: the kinds without structure of interest to the program are
  wrapped in \<open>Leaf\<close>; \<open>reflect.Invalid\<close> is not the kind of any descriptor.\<close>

datatype Kind = Leaf LeafKind | KArray | KMap | KPtr | KSlice | KStruct

datatype rtype =
    Basic LeafKind string
  | Ptr rtype
  | Slice string rtype
  | Array string rtype
  | Map string rtype
  | Struct nat string

fun tKind :: "rtype \<Rightarrow> Kind" where
  "tKind (Basic k s) = Leaf k"
| "tKind (Ptr t) = KPtr"
| "tKind (Slice s t) = KSlice"
| "tKind (Array s t) = KArray"
| "tKind (Map s t) = KMap"
| "tKind (Struct i s) = KStruct"

text \<open>\<open>t.Kind()\<close> is \<open>tKind\<close> above; \<open>t.String()\<close>:\<close>

fun tString :: "rtype \<Rightarrow> string" where
  "tString (Basic k s) = s"
| "tString (Ptr t) = CHR ''*'' # tString t"
| "tString (Slice s t) = s"
| "tString (Array s t) = s"
| "tString (Map s t) = s"
| "tString (Struct i s) = s"

text \<open>\<open>kind.String()\<close>, the table \<open>kindNames\<close> of package reflect.\<close>

fun leafName :: "LeafKind \<Rightarrow> string" where
  "leafName KBool = ''bool''"
| "leafName KInt = ''int''"
| "leafName KInt8 = ''int8''"
| "leafName KInt16 = ''int16''"
| "leafName KInt32 = ''int32''"
| "leafName KInt64 = ''int64''"
| "leafName KUint = ''uint''"
| "leafName KUint8 = ''uint8''"
| "leafName KUint16 = ''uint16''"
| "leafName KUint32 = ''uint32''"
| "leafName KUint64 = ''uint64''"
| "leafName KUintptr = ''uintptr''"
| "leafName KFloat32 = ''float32''"
| "leafName KFloat64 = ''float64''"
| "leafName KComplex64 = ''complex64''"
| "leafName KComplex128 = ''complex128''"
| "leafName KChan = ''chan''"
| "leafName KFunc = ''func''"
| "leafName KInterface = ''interface''"
| "leafName KString = ''string''"
| "leafName KUnsafePointer = ''unsafe.Pointer''"

fun kindString :: "Kind \<Rightarrow> string" where
  "kindString (Leaf k) = leafName k"
| "kindString KArray = ''array''"
| "kindString KMap = ''map''"
| "kindString KPtr = ''ptr''"
| "kindString KSlice = ''slice''"
| "kindString KStruct = ''struct''"

section \<open>Package types: the scalar classifier and the format classifier\<close>

text \<open>\<open>type ParameterType string\<close>: the values of the registry literal are string
  literals, so the type is a string type.\<close>

type_synonym ParameterType = string

text \<open>Modelled from the spec: the constants of \<open>ParameterType\<close>, whose declaration is not
  among the sources. The labels are the kinds of the spec (boolean, integer, number, string,
  array, object); \<open>Unknown\<close> is the zero value of the type: \<open>Get\<close> returns the zero value
  for a name that was never registered, and \<open>TestParse\<close> expects \<open>Parse\<close> to classify the
  unregistered \<open>[]int\<close> as \<open>Array\<close> and a channel as \<open>Unknown\<close>.\<close>

definition Unknown :: ParameterType where "Unknown = []"
definition Integer :: ParameterType where "Integer = ''integer''"
definition Number :: ParameterType where "Number = ''number''"
definition Boolean :: ParameterType where "Boolean = ''boolean''"
definition String_pt :: ParameterType where "String_pt = ''string''"
definition Array_pt :: ParameterType where "Array_pt = ''array''"
definition Object_pt :: ParameterType where "Object_pt = ''object''"

type_synonym registry = "string \<rightharpoonup> ParameterType"

definition ptMapping :: registry where
  "ptMapping = [''time.Time'' \<mapsto> ''string'',
                ''time.Duration'' \<mapsto> ''integer'',
                ''json.Number'' \<mapsto> ''number'']"

text \<open>\<open>Register\<close> updates the process-wide registry; the model passes the registry
  explicitly and returns the updated one.\<close>

definition Register :: "registry \<Rightarrow> string \<Rightarrow> ParameterType \<Rightarrow> registry" where
  "Register reg goType pt = reg(goType \<mapsto> pt)"

text \<open>Reading a Go map at a missing key gives the zero value, the empty string.\<close>

definition Get :: "registry \<Rightarrow> string \<Rightarrow> ParameterType" where
  "Get reg goType = (case reg goType of None \<Rightarrow> [] | Some pt \<Rightarrow> pt)"

fun Parse :: "registry \<Rightarrow> rtype \<Rightarrow> ParameterType" where
  "Parse reg (Ptr t) = Parse reg t"
| "Parse reg t =
     (let pt = Get reg (tString t) in
      if pt \<noteq> Unknown then pt
      else (case tKind t of
              Leaf KBool \<Rightarrow> Boolean
            | Leaf KFloat32 \<Rightarrow> Number
            | Leaf KFloat64 \<Rightarrow> Number
            | Leaf KInt \<Rightarrow> Integer
            | Leaf KInt8 \<Rightarrow> Integer
            | Leaf KInt16 \<Rightarrow> Integer
            | Leaf KInt32 \<Rightarrow> Integer
            | Leaf KInt64 \<Rightarrow> Integer
            | Leaf KUint \<Rightarrow> Integer
            | Leaf KUint8 \<Rightarrow> Integer
            | Leaf KUint16 \<Rightarrow> Integer
            | Leaf KUint32 \<Rightarrow> Integer
            | Leaf KUint64 \<Rightarrow> Integer
            | Leaf KString \<Rightarrow> String_pt
            | KArray \<Rightarrow> Array_pt
            | KSlice \<Rightarrow> Array_pt
            | KStruct \<Rightarrow> Object_pt
            | KMap \<Rightarrow> Object_pt
            | _ \<Rightarrow> Unknown))"

type_synonym Format = string

definition FormatNone :: Format where "FormatNone = []"
definition FormatInt32 :: Format where "FormatInt32 = ''int32''"
definition FormatInt64 :: Format where "FormatInt64 = ''int64''"
definition FormatDouble :: Format where "FormatDouble = ''double''"
definition FormatFloat :: Format where "FormatFloat = ''float''"

fun ParseFormat :: "rtype \<Rightarrow> Format" where
  "ParseFormat (Ptr t) = ParseFormat t"
| "ParseFormat t =
     (case tKind t of
        Leaf KInt \<Rightarrow> FormatInt32
      | Leaf KInt8 \<Rightarrow> FormatInt32
      | Leaf KInt16 \<Rightarrow> FormatInt32
      | Leaf KInt32 \<Rightarrow> FormatInt32
      | Leaf KUint8 \<Rightarrow> FormatInt32
      | Leaf KUint16 \<Rightarrow> FormatInt32
      | Leaf KUint32 \<Rightarrow> FormatInt32
      | Leaf KInt64 \<Rightarrow> FormatInt64
      | Leaf KUint64 \<Rightarrow> FormatInt64
      | Leaf KFloat64 \<Rightarrow> FormatDouble
      | Leaf KFloat32 \<Rightarrow> FormatFloat
      | _ \<Rightarrow> FormatNone)"

section \<open>The string functions of package strings that the program calls\<close>

text \<open>Go strings are byte sequences; \<open>string\<close> is a list of bytes.\<close>

fun HasPrefix :: "string \<Rightarrow> string \<Rightarrow> bool" where
  "HasPrefix s [] = True"
| "HasPrefix [] (p # ps) = False"
| "HasPrefix (c # cs) (p # ps) = (c = p \<and> HasPrefix cs ps)"

fun Contains :: "string \<Rightarrow> string \<Rightarrow> bool" where
  "Contains [] sub = (sub = [])"
| "Contains (c # cs) sub = (HasPrefix (c # cs) sub \<or> Contains cs sub)"

text \<open>\<open>strings.Split(s, sep)\<close> for a separator of one byte: the pieces between the
  separators, one piece more than there are separators.\<close>

fun Split :: "string \<Rightarrow> char \<Rightarrow> string list" where
  "Split [] sep = [[]]"
| "Split (c # cs) sep =
     (if c = sep then [] # Split cs sep
      else (case Split cs sep of [] \<Rightarrow> [[c]] | p # ps \<Rightarrow> (c # p) # ps))"

text \<open>The runes of \<open>unicode.IsSpace\<close> in UTF-8: tab, line feed, vertical tab, form feed,
  carriage return, space, U+0085, U+00A0, U+1680, U+2000 to U+200A, U+2028, U+2029, U+202F,
  U+205F and U+3000.\<close>

definition spaceRunes :: "string list" where
  "spaceRunes =
     [[CHR 0x09], [CHR 0x0A], [CHR 0x0B], [CHR 0x0C], [CHR 0x0D], [CHR 0x20],
      [CHR 0xC2, CHR 0x85], [CHR 0xC2, CHR 0xA0], [CHR 0xE1, CHR 0x9A, CHR 0x80],
      [CHR 0xE2, CHR 0x80, CHR 0x80], [CHR 0xE2, CHR 0x80, CHR 0x81],
      [CHR 0xE2, CHR 0x80, CHR 0x82], [CHR 0xE2, CHR 0x80, CHR 0x83],
      [CHR 0xE2, CHR 0x80, CHR 0x84], [CHR 0xE2, CHR 0x80, CHR 0x85],
      [CHR 0xE2, CHR 0x80, CHR 0x86], [CHR 0xE2, CHR 0x80, CHR 0x87],
      [CHR 0xE2, CHR 0x80, CHR 0x88], [CHR 0xE2, CHR 0x80, CHR 0x89],
      [CHR 0xE2, CHR 0x80, CHR 0x8A], [CHR 0xE2, CHR 0x80, CHR 0xA8],
      [CHR 0xE2, CHR 0x80, CHR 0xA9], [CHR 0xE2, CHR 0x80, CHR 0xAF],
      [CHR 0xE2, CHR 0x81, CHR 0x9F], [CHR 0xE3, CHR 0x80, CHR 0x80]]"

text \<open>Removing the leading runes of a set: while one of the (non-empty) byte sequences
  \<open>ws\<close> is a prefix, drop it.\<close>

function trimRunes :: "string list \<Rightarrow> string \<Rightarrow> string" where
  "trimRunes ws s =
     (case find (\<lambda>w. w \<noteq> [] \<and> HasPrefix s w) ws of
        None \<Rightarrow> s
      | Some w \<Rightarrow> trimRunes ws (drop (length w) s))"
  by pat_completeness auto

lemma HasPrefix_length: "HasPrefix s w \<Longrightarrow> length w \<le> length s"
  by (induction s w rule: HasPrefix.induct) auto

termination trimRunes
proof (relation "measure (\<lambda>(ws, s). length s)")
  show "wf (measure (\<lambda>(ws, s). length s))" by simp
next
  fix ws :: "string list" and s w :: string
  assume "find (\<lambda>w. w \<noteq> [] \<and> HasPrefix s w) ws = Some w"
  then have "w \<noteq> []" and "HasPrefix s w"
    by (auto simp: find_Some_iff)
  then have "0 < length w" and "length w \<le> length s"
    by (auto dest: HasPrefix_length)
  then have "length s - length w < length s"
    by arith
  then show "((ws, drop (length w) s), (ws, s)) \<in> measure (\<lambda>(ws, s). length s)"
    by simp
qed

text \<open>\<open>strings.TrimSpace\<close>: the white space runes are removed at both ends.\<close>

definition TrimSpace :: "string \<Rightarrow> string" where
  "TrimSpace s = rev (trimRunes (map rev spaceRunes) (rev (trimRunes spaceRunes s)))"

text \<open>\<open>strings.ToLower\<close> on the one-byte string \<open>[c]\<close>: an ASCII capital is lowered, any
  other ASCII byte is kept, and a byte from 0x80 on, alone not valid UTF-8, is replaced by
  the encoding of U+FFFD.\<close>

definition ToLower1 :: "char \<Rightarrow> string" where
  "ToLower1 c =
     (if (of_char c :: nat) < 128
      then (if 65 \<le> (of_char c :: nat) \<and> (of_char c :: nat) \<le> 90
            then [char_of (of_char c + 32 :: nat)] else [c])
      else [CHR 0xEF, CHR 0xBF, CHR 0xBD])"

section \<open>Struct fields, properties and objects\<close>

text \<open>\<open>reflect.StructField\<close>. The tag is kept as the key-value pairs that
  \<open>StructTag.Lookup\<close> parses out of it; the first pair of a key is the one found.\<close>

record StructField =
  FName :: string
  FType :: rtype
  FTag :: "(string \<times> string) list"
  FAnonymous :: bool

definition TagLookup :: "(string \<times> string) list \<Rightarrow> string \<Rightarrow> string option" where
  "TagLookup tag key = map_of tag key"

definition TagGet :: "(string \<times> string) list \<Rightarrow> string \<Rightarrow> string" where
  "TagGet tag key = (case TagLookup tag key of None \<Rightarrow> [] | Some v \<Rightarrow> v)"

text \<open>Modelled from the spec: the types \<open>Property\<close> and \<open>Object\<close>, whose declarations are not
  among the sources, with the fields that \<open>reflect.go\<close> reads and writes. A nil pointer is
  \<open>None\<close>; a nil slice and a nil map are the empty list and the empty map.\<close>

datatype Property = Property
  (GoType: rtype)
  (Type: string)
  (Format: string)
  (Ref: string)
  (Items: "Property option")
  (AdditionalProperties: "Property option")
  (Example: string)
  (Description: string)
  (Enum: "string list")

record Object =
  Name :: string
  OType :: string
  OFormat :: string
  Required :: "string list"
  Properties :: "string \<rightharpoonup> Property"
  OItems :: "Property option"
  OAdditionalProperties :: "Property option"

text \<open>What the program takes from its surroundings: the fields of the declared struct
  types (\<open>t.NumField()\<close>, \<open>t.Field(i)\<close>), and the helpers \<open>makeName\<close> and \<open>makeRef\<close>, which
  are not among the sources and are parameters of the model.\<close>

record host =
  structFields :: "nat \<Rightarrow> StructField list"
  makeName :: "rtype \<Rightarrow> string"
  makeRef :: "string \<Rightarrow> string"

text \<open>A panic of the Go runtime is an error value; \<open>None\<close> is a computation that does not
  return within the fuel it was given.\<close>

datatype error = NumFieldOfNonStruct | SliceBoundsOutOfRange | IndexOutOfRange

type_synonym 'a result = "(error + 'a) option"

text \<open>A loop whose body may panic or run out of fuel: the first body that does not
  return a state ends the loop with that outcome.\<close>

primrec foldR :: "('a \<Rightarrow> 's \<Rightarrow> 's result) \<Rightarrow> 'a list \<Rightarrow> 's \<Rightarrow> 's result" where
  "foldR f [] s = Some (Inr s)"
| "foldR f (x # xs) s =
     (case f x s of
        None \<Rightarrow> None
      | Some (Inl e) \<Rightarrow> Some (Inl e)
      | Some (Inr s') \<Rightarrow> foldR f xs s')"

section \<open>reflect.go: the property inspector\<close>

fun inspect :: "host \<Rightarrow> registry \<Rightarrow> rtype \<Rightarrow> Property" where
  "inspect h reg (Ptr t) = inspect h reg t"
| "inspect h reg (Struct i s) =
     Property (Struct i s) [] (ParseFormat (Struct i s))
       (makeRef h (makeName h (Struct i s))) None None [] [] []"
| "inspect h reg (Map s e) =
     Property (Map s e) (Parse reg (Map s e)) (ParseFormat (Map s e)) []
       None (Some (inspect h reg e)) [] [] []"
| "inspect h reg (Slice s e) =
     Property e (Parse reg (Slice s e)) (ParseFormat (Slice s e)) []
       (Some (inspect h reg e)) None [] [] []"
| "inspect h reg (Array s e) =
     Property e (Parse reg (Array s e)) (ParseFormat (Array s e)) []
       (Some (inspect h reg e)) None [] [] []"
| "inspect h reg (Basic k s) =
     Property (Basic k s) (Parse reg (Basic k s)) (ParseFormat (Basic k s)) []
       None None [] [] []"

section \<open>reflect.go: the field enumerator\<close>

definition set_Example :: "string \<Rightarrow> Property \<Rightarrow> Property" where
  "set_Example v p =
     Property (GoType p) (Type p) (Format p) (Ref p) (Items p) (AdditionalProperties p)
       v (Description p) (Enum p)"

definition set_Description :: "string \<Rightarrow> Property \<Rightarrow> Property" where
  "set_Description v p =
     Property (GoType p) (Type p) (Format p) (Ref p) (Items p) (AdditionalProperties p)
       (Example p) v (Enum p)"

definition set_Enum :: "string list \<Rightarrow> Property \<Rightarrow> Property" where
  "set_Enum v p =
     Property (GoType p) (Type p) (Format p) (Ref p) (Items p) (AdditionalProperties p)
       (Example p) (Description p) v"

text \<open>\<open>parts[0]\<close>.\<close>

definition index0 :: "string list \<Rightarrow> error + string" where
  "index0 parts = (case parts of [] \<Rightarrow> Inl IndexOutOfRange | p # _ \<Rightarrow> Inr p)"

text \<open>Lines 72 to 83: the json name of the field.\<close>

definition jsonName :: "StructField \<Rightarrow> error + string" where
  "jsonName f =
     (let name = TrimSpace (TagGet (FTag f) ''json'') in
      case (if name = [] \<or> HasPrefix name '','' then Inr (FName f)
            else index0 (Split name CHR '','')) of
        Inl e \<Rightarrow> Inl e
      | Inr name \<Rightarrow> index0 (Split name CHR '',''))"

text \<open>Lines 102 to 113: example, description, desc and enum.\<close>

definition extraInfo :: "StructField \<Rightarrow> Property \<Rightarrow> Property" where
  "extraInfo f p0 =
     (let p1 = (if TagGet (FTag f) ''example'' \<noteq> []
                then set_Example (TagGet (FTag f) ''example'') p0 else p0);
          p2 = (if TagGet (FTag f) ''description'' \<noteq> []
                then set_Description (TagGet (FTag f) ''description'') p1 else p1);
          p3 = (if TagGet (FTag f) ''desc'' \<noteq> []
                then set_Description (TagGet (FTag f) ''desc'') p2 else p2)
      in if TagGet (FTag f) ''enum'' \<noteq> []
         then set_Enum (Split (TagGet (FTag f) ''enum'') CHR '','') p3 else p3)"

text \<open>The body of the loop over the fields, on the pair of \<open>properties\<close> and \<open>required\<close>;
  \<open>rec\<close> is the recursive call of \<open>buildProperty\<close>.\<close>

definition fieldStep ::
  "(rtype \<Rightarrow> ((string \<rightharpoonup> Property) \<times> string list) result) \<Rightarrow> host \<Rightarrow> registry \<Rightarrow>
   StructField \<Rightarrow> (string \<rightharpoonup> Property) \<times> string list \<Rightarrow>
   ((string \<rightharpoonup> Property) \<times> string list) result" where
  "fieldStep rec h reg f acc =
     (case FName f of
        [] \<Rightarrow> Some (Inl SliceBoundsOutOfRange)
      | c # _ \<Rightarrow>
          if ToLower1 c = [c] then Some (Inr acc)
          else if FAnonymous f then
            (case rec (FType f) of
               None \<Rightarrow> None
             | Some (Inl e) \<Rightarrow> Some (Inl e)
             | Some (Inr (ps, _)) \<Rightarrow> Some (Inr (fst acc ++ ps, snd acc)))
          else
            (case jsonName f of
               Inl e \<Rightarrow> Some (Inl e)
             | Inr name \<Rightarrow>
                 if name = ''-'' then Some (Inr acc)
                 else
                   let p = (if Contains (TagGet (FTag f) ''json'') '',string''
                            then Property (FType f) String_pt [] [] None None [] [] []
                            else inspect h reg (FType f));
                       required = (if TagLookup (FTag f) ''required'' \<noteq> None
                                   then snd acc @ [name] else snd acc)
                   in Some (Inr ((fst acc)(name \<mapsto> extraInfo f p), required))))"

text \<open>\<open>buildProperty\<close>. \<open>t.NumField()\<close> panics unless \<open>t\<close> is of kind struct. The first
  argument is the fuel: the depth to which embedded fields are followed.\<close>

primrec buildProperty ::
  "nat \<Rightarrow> host \<Rightarrow> registry \<Rightarrow> rtype \<Rightarrow> ((string \<rightharpoonup> Property) \<times> string list) result" where
  "buildProperty 0 h reg t = None"
| "buildProperty (Suc n) h reg t =
     (case t of
        Struct i s \<Rightarrow>
          foldR (fieldStep (buildProperty n h reg) h reg) (structFields h i) (Map.empty, [])
      | _ \<Rightarrow> Some (Inl NumFieldOfNonStruct))"

section \<open>reflect.go: the object definer and the graph closure\<close>

fun defineObject :: "nat \<Rightarrow> host \<Rightarrow> registry \<Rightarrow> rtype \<Rightarrow> Object result" where
  "defineObject n h reg (Ptr t) = defineObject n h reg t"
| "defineObject n h reg (Slice s e) =
     Some (Inr \<lparr>Name = makeName h (Slice s e), OType = Array_pt, OFormat = [],
                Required = [], Properties = Map.empty,
                OItems = Some (inspect h reg e), OAdditionalProperties = None\<rparr>)"
| "defineObject n h reg (Array s e) =
     Some (Inr \<lparr>Name = makeName h (Array s e), OType = Array_pt, OFormat = [],
                Required = [], Properties = Map.empty,
                OItems = Some (inspect h reg e), OAdditionalProperties = None\<rparr>)"
| "defineObject n h reg (Map s e) =
     Some (Inr \<lparr>Name = makeName h (Map s e), OType = Object_pt, OFormat = [],
                Required = [], Properties = Map.empty,
                OItems = None, OAdditionalProperties = Some (inspect h reg e)\<rparr>)"
| "defineObject n h reg (Struct i s) =
     (case buildProperty n h reg (Struct i s) of
        None \<Rightarrow> None
      | Some (Inl e) \<Rightarrow> Some (Inl e)
      | Some (Inr (properties, required)) \<Rightarrow>
          Some (Inr \<lparr>Name = makeName h (Struct i s), OType = Object_pt, OFormat = [],
                     Required = required, Properties = properties,
                     OItems = None, OAdditionalProperties = None\<rparr>))"
| "defineObject n h reg (Basic k s) =
     Some (Inr \<lparr>Name = kindString (tKind (Basic k s)),
                OType = Type (inspect h reg (Basic k s)),
                OFormat = Format (inspect h reg (Basic k s)),
                Required = [], Properties = Map.empty,
                OItems = None, OAdditionalProperties = None\<rparr>)"

text \<open>The properties that the innermost loop of \<open>define\<close> visits from \<open>p\<close>: \<open>p\<close> itself and
  then what \<open>AdditionalProperties\<close> points to, until it is nil.\<close>

fun chain :: "Property \<Rightarrow> Property list" where
  "chain (Property g ty fm r it ap ex d en) =
     Property g ty fm r it ap ex d en # (case ap of None \<Rightarrow> [] | Some q \<Rightarrow> chain q)"

text \<open>The state of \<open>define\<close> is the object map and the dirty flag. \<open>D\<close> is \<open>defineObject\<close>.\<close>

definition visit ::
  "(rtype \<Rightarrow> Object result) \<Rightarrow> host \<Rightarrow> Property \<Rightarrow>
   (string \<rightharpoonup> Object) \<times> bool \<Rightarrow> ((string \<rightharpoonup> Object) \<times> bool) result" where
  "visit D h prop st =
     (if tKind (GoType prop) = KStruct then
        (let name = makeName h (GoType prop) in
         if fst st name = None then
           (case D (GoType prop) of
              None \<Rightarrow> None
            | Some (Inl e) \<Rightarrow> Some (Inl e)
            | Some (Inr child) \<Rightarrow> Some (Inr ((fst st)(Name child \<mapsto> child), True)))
         else Some (Inr st))
      else Some (Inr st))"

definition walk ::
  "(rtype \<Rightarrow> Object result) \<Rightarrow> host \<Rightarrow> Property \<Rightarrow>
   (string \<rightharpoonup> Object) \<times> bool \<Rightarrow> ((string \<rightharpoonup> Object) \<times> bool) result" where
  "walk D h p st = foldR (visit D h) (chain p) st"

text \<open>Go ranges over a map in an order that is not specified, and an entry inserted while
  the loop runs may be produced by it or skipped. The order is therefore an argument: one
  pass over the object map follows a list of pairs, a key of the object map and the keys of
  that object's properties in the order in which they are ranged over. A key with no entry
  at the moment it is met is passed over.\<close>

definition visitObject ::
  "(rtype \<Rightarrow> Object result) \<Rightarrow> host \<Rightarrow> Object \<Rightarrow> string list \<Rightarrow>
   (string \<rightharpoonup> Object) \<times> bool \<Rightarrow> ((string \<rightharpoonup> Object) \<times> bool) result" where
  "visitObject D h d pks st =
     foldR (\<lambda>pk st. case Properties d pk of
                       None \<Rightarrow> Some (Inr st)
                     | Some p \<Rightarrow> walk D h p st) pks st"

definition pass ::
  "(rtype \<Rightarrow> Object result) \<Rightarrow> host \<Rightarrow> (string \<times> string list) list \<Rightarrow>
   (string \<rightharpoonup> Object) \<times> bool \<Rightarrow> ((string \<rightharpoonup> Object) \<times> bool) result" where
  "pass D h ord st =
     foldR (\<lambda>kp st. case fst st (fst kp) of
                       None \<Rightarrow> Some (Inr st)
                     | Some d \<Rightarrow> visitObject D h d (snd kp) st) ord st"

text \<open>The loop \<open>for dirty\<close>: one order for each pass. The list of orders is the fuel of the
  loop: \<open>None\<close> when the passes it provides for have all been dirty.\<close>

fun defineLoop ::
  "(rtype \<Rightarrow> Object result) \<Rightarrow> host \<Rightarrow> (string \<times> string list) list list \<Rightarrow>
   (string \<rightharpoonup> Object) \<Rightarrow> (string \<rightharpoonup> Object) result" where
  "defineLoop D h [] objMap = None"
| "defineLoop D h (ord # ords) objMap =
     (case pass D h ord (objMap, False) of
        None \<Rightarrow> None
      | Some (Inl e) \<Rightarrow> Some (Inl e)
      | Some (Inr (objMap', dirty)) \<Rightarrow>
          if dirty then defineLoop D h ords objMap' else Some (Inr objMap'))"

definition "define" ::
  "nat \<Rightarrow> host \<Rightarrow> registry \<Rightarrow> (string \<times> string list) list list \<Rightarrow> rtype \<Rightarrow>
   (string \<rightharpoonup> Object) result" where
  "define n h reg ords v =
     (case defineObject n h reg v of
        None \<Rightarrow> None
      | Some (Inl e) \<Rightarrow> Some (Inl e)
      | Some (Inr obj) \<Rightarrow> defineLoop (defineObject n h reg) h ords [Name obj \<mapsto> obj])"

section \<open>Notions used to state the properties\<close>

text \<open>The descriptor under all its pointers.\<close>

fun unwrap :: "rtype \<Rightarrow> rtype" where
  "unwrap (Ptr t) = unwrap t"
| "unwrap t = t"

text \<open>A field is exported for the program when its loop does not skip it in line 59.\<close>

definition exported :: "StructField \<Rightarrow> bool" where
  "exported f = (case FName f of [] \<Rightarrow> False | c # _ \<Rightarrow> ToLower1 c \<noteq> [c])"

text \<open>The format classifier as the specification words it, by the width in bits of the
  integer kinds; \<open>w\<close> is the width of \<open>int\<close> and \<open>uint\<close> on the platform, 32 or 64.\<close>

fun integerWidth :: "nat \<Rightarrow> LeafKind \<Rightarrow> nat option" where
  "integerWidth w KInt = Some w"
| "integerWidth w KInt8 = Some 8"
| "integerWidth w KInt16 = Some 16"
| "integerWidth w KInt32 = Some 32"
| "integerWidth w KInt64 = Some 64"
| "integerWidth w KUint = Some w"
| "integerWidth w KUint8 = Some 8"
| "integerWidth w KUint16 = Some 16"
| "integerWidth w KUint32 = Some 32"
| "integerWidth w KUint64 = Some 64"
| "integerWidth w k = None"

definition classifyFormat_spec :: "nat \<Rightarrow> rtype \<Rightarrow> Format" where
  "classifyFormat_spec w t =
     (case unwrap t of
        Basic k s \<Rightarrow>
          (case integerWidth w k of
             Some b \<Rightarrow> if b = 8 \<or> b = 16 \<or> b = 32 then FormatInt32
                       else if b = 64 then FormatInt64 else FormatNone
           | None \<Rightarrow> if k = KFloat64 then FormatDouble
                     else if k = KFloat32 then FormatFloat else FormatNone)
      | _ \<Rightarrow> FormatNone)"

text \<open>The external name of a field as the specification words it: the first
  comma-separated segment of the annotation, no name for the annotation \<open>-\<close>, and the
  declared name for an annotation that is absent, empty or begins with a comma.\<close>

definition externalName_spec :: "StructField \<Rightarrow> string option" where
  "externalName_spec f =
     (case TagLookup (FTag f) ''json'' of
        None \<Rightarrow> Some (FName f)
      | Some a \<Rightarrow>
          if a = ''-'' then None
          else if a = [] \<or> HasPrefix a '','' then Some (FName f)
          else Some (takeWhile (\<lambda>c. c \<noteq> CHR '','') a))"



text \<open>The loop of \<open>buildProperty\<close> over the fields \<open>fs\<close>, from the state \<open>acc\<close> of
  \<open>properties\<close> and \<open>required\<close>, with fuel \<open>n\<close> for the embedded fields; \<open>buildProperty\<close>
  with fuel \<open>Suc n\<close> runs it over all the fields from the empty state.\<close>

definition fieldsLoop ::
  "nat \<Rightarrow> host \<Rightarrow> registry \<Rightarrow> StructField list \<Rightarrow> (string \<rightharpoonup> Property) \<times> string list \<Rightarrow>
   ((string \<rightharpoonup> Property) \<times> string list) result" where
  "fieldsLoop n h reg fs acc = foldR (fieldStep (buildProperty n h reg) h reg) fs acc"

text \<open>Reading the outcome of the field enumerator: the property under a name, and the
  list of required names.\<close>

definition propertyAt ::
  "((string \<rightharpoonup> Property) \<times> string list) result \<Rightarrow> string \<Rightarrow> Property option" where
  "propertyAt r name = (case r of Some (Inr (props, req)) \<Rightarrow> props name | _ \<Rightarrow> None)"

definition requiredOf ::
  "((string \<rightharpoonup> Property) \<times> string list) result \<Rightarrow> string list option" where
  "requiredOf r = (case r of Some (Inr (props, req)) \<Rightarrow> Some req | _ \<Rightarrow> None)"


text \<open>The references that a property carries, its own and those of its element
  properties, through \<open>Items\<close> and through \<open>AdditionalProperties\<close>.\<close>

fun refsOf :: "Property \<Rightarrow> string list" where
  "refsOf (Property g ty fm r it ap ex d en) =
     (if r = [] then [] else [r]) @
     (case it of None \<Rightarrow> [] | Some q \<Rightarrow> refsOf q) @
     (case ap of None \<Rightarrow> [] | Some q \<Rightarrow> refsOf q)"






section \<open>Example declarations\<close>

text \<open>
  \<^verbatim>\<open>
  type Outer struct { Grid [][]Inner }
  type Inner struct { X int }
  type Node struct { Next *Node; Kids []Node }
  type Holder struct { S pkg.SpecialType }
  type SpecialType struct { Secret string }                     // in package pkg
  type Parent struct { Base; Title string `json:"title,omitempty"` }
  type Base struct { ID int `json:"id" required:""` }
  type Broken struct { *Base }
  type Tagged struct {
      Spaced string `json:" label"`
      Alias  string `json:"alias,omitempty"`
      Hidden string `json:"-"`
      Plain  string `json:",omitempty"`
  }
  type Pet struct { Name string; Tags []string `required:""` }
  type Pair struct { A Inner; B Node }
  type base struct { ID int `json:"id" required:""` }
  type Wrapper struct { base }
  \<close>
\<close>

definition tInner :: rtype where "tInner = Struct 1 ''main.Inner''"
definition tOuter :: rtype where "tOuter = Struct 0 ''main.Outer''"
definition tNode :: rtype where "tNode = Struct 2 ''main.Node''"
definition tHolder :: rtype where "tHolder = Struct 3 ''main.Holder''"
definition tSpecialType :: rtype where "tSpecialType = Struct 4 ''pkg.SpecialType''"
definition tParent :: rtype where "tParent = Struct 5 ''main.Parent''"
definition tBase :: rtype where "tBase = Struct 6 ''main.Base''"
definition tBroken :: rtype where "tBroken = Struct 7 ''main.Broken''"
definition tTagged :: rtype where "tTagged = Struct 8 ''main.Tagged''"
definition tPet :: rtype where "tPet = Struct 9 ''main.Pet''"
definition tPair :: rtype where "tPair = Struct 10 ''main.Pair''"
definition tLowerBase :: rtype where "tLowerBase = Struct 11 ''main.base''"
definition tWrapper :: rtype where "tWrapper = Struct 12 ''main.Wrapper''"
definition tInt :: rtype where "tInt = Basic KInt ''int''"
definition tUint :: rtype where "tUint = Basic KUint ''uint''"
definition tStr :: rtype where "tStr = Basic KString ''string''"

definition fGrid :: StructField where
  "fGrid = \<lparr>FName = ''Grid'',
            FType = Slice ''[][]main.Inner'' (Slice ''[]main.Inner'' tInner),
            FTag = [], FAnonymous = False\<rparr>"
definition fX :: StructField where
  "fX = \<lparr>FName = ''X'', FType = tInt, FTag = [], FAnonymous = False\<rparr>"
definition fNext :: StructField where
  "fNext = \<lparr>FName = ''Next'', FType = Ptr tNode, FTag = [], FAnonymous = False\<rparr>"
definition fKids :: StructField where
  "fKids = \<lparr>FName = ''Kids'', FType = Slice ''[]main.Node'' tNode, FTag = [],
            FAnonymous = False\<rparr>"
definition fS :: StructField where
  "fS = \<lparr>FName = ''S'', FType = tSpecialType, FTag = [], FAnonymous = False\<rparr>"
definition fSecret :: StructField where
  "fSecret = \<lparr>FName = ''Secret'', FType = tStr, FTag = [], FAnonymous = False\<rparr>"
definition fBase :: StructField where
  "fBase = \<lparr>FName = ''Base'', FType = tBase, FTag = [], FAnonymous = True\<rparr>"
definition fTitle :: StructField where
  "fTitle = \<lparr>FName = ''Title'', FType = tStr, FTag = [(''json'', ''title,omitempty'')],
             FAnonymous = False\<rparr>"
definition fID :: StructField where
  "fID = \<lparr>FName = ''ID'', FType = tInt, FTag = [(''json'', ''id''), (''required'', [])],
          FAnonymous = False\<rparr>"
definition fBasePtr :: StructField where
  "fBasePtr = \<lparr>FName = ''Base'', FType = Ptr tBase, FTag = [], FAnonymous = True\<rparr>"
definition fSpaced :: StructField where
  "fSpaced = \<lparr>FName = ''Spaced'', FType = tStr, FTag = [(''json'', '' label'')],
              FAnonymous = False\<rparr>"
definition fAlias :: StructField where
  "fAlias = \<lparr>FName = ''Alias'', FType = tStr, FTag = [(''json'', ''alias,omitempty'')],
             FAnonymous = False\<rparr>"
definition fHidden :: StructField where
  "fHidden = \<lparr>FName = ''Hidden'', FType = tStr, FTag = [(''json'', ''-'')],
              FAnonymous = False\<rparr>"
definition fPlain :: StructField where
  "fPlain = \<lparr>FName = ''Plain'', FType = tStr, FTag = [(''json'', '',omitempty'')],
             FAnonymous = False\<rparr>"
definition fName :: StructField where
  "fName = \<lparr>FName = ''Name'', FType = tStr, FTag = [], FAnonymous = False\<rparr>"
definition fTags :: StructField where
  "fTags = \<lparr>FName = ''Tags'', FType = Slice ''[]string'' tStr, FTag = [(''required'', [])],
            FAnonymous = False\<rparr>"

definition fA :: StructField where
  "fA = \<lparr>FName = ''A'', FType = tInner, FTag = [], FAnonymous = False\<rparr>"
definition fB :: StructField where
  "fB = \<lparr>FName = ''B'', FType = tNode, FTag = [], FAnonymous = False\<rparr>"

definition fLowerBase :: StructField where
  "fLowerBase = \<lparr>FName = ''base'', FType = tLowerBase, FTag = [], FAnonymous = True\<rparr>"

definition exFields :: "nat \<Rightarrow> StructField list" where
  "exFields i =
     (if i = 0 then [fGrid]
      else if i = 1 then [fX]
      else if i = 2 then [fNext, fKids]
      else if i = 3 then [fS]
      else if i = 4 then [fSecret]
      else if i = 5 then [fBase, fTitle]
      else if i = 6 then [fID]
      else if i = 7 then [fBasePtr]
      else if i = 8 then [fSpaced, fAlias, fHidden, fPlain]
      else if i = 9 then [fName, fTags]
      else if i = 10 then [fA, fB]
      else if i = 11 then [fID]
      else if i = 12 then [fLowerBase]
      else [])"

text \<open>In the examples the derived name of a type is its printed name.\<close>

definition exHost :: host where
  "exHost = \<lparr>structFields = exFields, makeName = tString,
             makeRef = (\<lambda>name. ''#/definitions/'' @ name)\<rparr>"

text \<open>The objects that \<open>defineObject\<close> gives for \<open>Outer\<close>, \<open>Inner\<close>, \<open>Node\<close> and \<open>Pair\<close>.\<close>

definition exOuterObject :: Object where
  "exOuterObject =
     \<lparr>Name = ''main.Outer'', OType = ''object'', OFormat = [], Required = [],
      Properties =
        [''Grid'' \<mapsto> Property (Slice ''[]main.Inner'' tInner) ''array'' [] []
            (Some (Property tInner ''array'' [] []
               (Some (Property tInner [] [] ''#/definitions/main.Inner'' None None [] [] []))
               None [] [] []))
            None [] [] []],
      OItems = None, OAdditionalProperties = None\<rparr>"






section \<open>The classifiers\<close>


lemma ParseFormat_unwrap: "ParseFormat t = ParseFormat (unwrap t)"
  by (induction t) simp_all

lemma tKind_unwrap: "tKind (unwrap t) \<noteq> KPtr"
  by (induction t) simp_all




text \<open>C5, as stated, fails. With \<open>int\<close> and \<open>uint\<close> 32 bits wide the stated rule sends
  \<open>uint\<close> to int32, and the program sends it to none; with both 64 bits wide the stated rule
  sends \<open>int\<close> to int64, and the program sends it to int32.\<close>

theorem ParseFormat_as_specified_counterexample:
  "ParseFormat tUint \<noteq> classifyFormat_spec 32 tUint \<and>
   ParseFormat tInt \<noteq> classifyFormat_spec 64 tInt"
  by (simp add: tUint_def tInt_def classifyFormat_spec_def FormatNone_def FormatInt32_def
      FormatInt64_def)

text \<open>C5, amended. The format classifier has no registry argument and looks through any
  number of pointers. For a type whose kind under the pointers is not \<open>uint\<close>: the kinds
  \<open>int\<close>, \<open>int8\<close>, \<open>int16\<close>, \<open>int32\<close>, \<open>uint8\<close>, \<open>uint16\<close> and \<open>uint32\<close> give int32; \<open>int64\<close> and
  \<open>uint64\<close> give int64; \<open>float64\<close> gives double; \<open>float32\<close> gives float; every other kind
  gives none.\<close>

theorem ParseFormat_table:
  assumes "tKind (unwrap t) \<noteq> Leaf KUint"
  shows "ParseFormat (Ptr (Ptr t)) = ParseFormat t \<and>
    (tKind (unwrap t) \<in> Leaf ` {KInt, KInt8, KInt16, KInt32, KUint8, KUint16, KUint32}
       \<longrightarrow> ParseFormat t = FormatInt32) \<and>
    (tKind (unwrap t) \<in> Leaf ` {KInt64, KUint64} \<longrightarrow> ParseFormat t = FormatInt64) \<and>
    (tKind (unwrap t) = Leaf KFloat64 \<longrightarrow> ParseFormat t = FormatDouble) \<and>
    (tKind (unwrap t) = Leaf KFloat32 \<longrightarrow> ParseFormat t = FormatFloat) \<and>
    (tKind (unwrap t) \<notin> Leaf ` {KInt, KInt8, KInt16, KInt32, KUint8, KUint16, KUint32,
         KInt64, KUint64, KFloat64, KFloat32} \<longrightarrow> ParseFormat t = FormatNone)"
proof (intro conjI)
  have P: "ParseFormat t = ParseFormat (unwrap t)"
    by (rule ParseFormat_unwrap)
  show "ParseFormat (Ptr (Ptr t)) = ParseFormat t" by simp
  show "tKind (unwrap t) \<in> Leaf ` {KInt, KInt8, KInt16, KInt32, KUint8, KUint16, KUint32}
       \<longrightarrow> ParseFormat t = FormatInt32"
    using P by (cases "unwrap t") auto
  show "tKind (unwrap t) \<in> Leaf ` {KInt64, KUint64} \<longrightarrow> ParseFormat t = FormatInt64"
    using P by (cases "unwrap t") auto
  show "tKind (unwrap t) = Leaf KFloat64 \<longrightarrow> ParseFormat t = FormatDouble"
    using P by (cases "unwrap t") auto
  show "tKind (unwrap t) = Leaf KFloat32 \<longrightarrow> ParseFormat t = FormatFloat"
    using P by (cases "unwrap t") auto
  show "tKind (unwrap t) \<notin> Leaf ` {KInt, KInt8, KInt16, KInt32, KUint8, KUint16, KUint32,
         KInt64, KUint64, KFloat64, KFloat32} \<longrightarrow> ParseFormat t = FormatNone"
  proof (cases "unwrap t")
    case (Basic k s)
    then show ?thesis using P assms by (cases k) simp_all
  next
    case (Ptr u)
    then show ?thesis using tKind_unwrap [of t] by simp
  qed (use P in simp_all)
qed

theorem ParseFormat_table_witness:
  "tKind (unwrap (Ptr (Basic KUint16 ''uint16''))) \<noteq> Leaf KUint \<and>
   ParseFormat (Ptr (Basic KUint16 ''uint16'')) = FormatInt32 \<and>
   tKind (unwrap tStr) \<noteq> Leaf KUint \<and> ParseFormat tStr = FormatNone"
proof -
  have a: "tKind (unwrap (Ptr (Basic KUint16 ''uint16''))) \<noteq> Leaf KUint" by simp
  have b: "tKind (unwrap tStr) \<noteq> Leaf KUint" by (simp add: tStr_def)
  show ?thesis
    using a b ParseFormat_table [OF a] ParseFormat_table [OF b]
    by (simp add: tStr_def)
qed

section \<open>The field enumerator\<close>

lemma foldR_append:
  "foldR f (xs @ ys) s =
     (case foldR f xs s of None \<Rightarrow> None | Some (Inl e) \<Rightarrow> Some (Inl e)
      | Some (Inr s') \<Rightarrow> foldR f ys s')"
  by (induction xs arbitrary: s) (auto split: option.splits sum.splits)

lemma foldR_invariant:
  assumes "foldR f xs s = Some (Inr s')" and "P s"
    and "\<And>x a b. x \<in> set xs \<Longrightarrow> P a \<Longrightarrow> f x a = Some (Inr b) \<Longrightarrow> P b"
  shows "P s'"
  using assms
proof (induction xs arbitrary: s)
  case Nil
  then show ?case by simp
next
  case (Cons x xs)
  from Cons.prems(1) obtain m where m: "f x s = Some (Inr m)" and r: "foldR f xs m = Some (Inr s')"
    by (auto split: option.splits sum.splits)
  have "P m" by (rule Cons.prems(3) [OF _ Cons.prems(2) m]) simp
  show ?case
    by (rule Cons.IH [OF r \<open>P m\<close>]) (rule Cons.prems(3), auto)
qed

lemma foldR_all_steps_return:
  assumes "foldR f xs s = Some (Inr s')" and "x \<in> set xs"
  shows "\<exists>a b. f x a = Some (Inr b)"
  using assms
  by (induction xs arbitrary: s) (auto split: option.splits sum.splits)

lemma of_char_less_256: "(of_char c :: nat) < 256"
  by (metis of_char_mod_256 mod_less_divisor zero_less_numeral)

lemma ToLower1_same:
  "ToLower1 c = [c] \<longleftrightarrow> (of_char c :: nat) < 128 \<and> \<not> (65 \<le> (of_char c :: nat) \<and> (of_char c :: nat) \<le> 90)"
proof -
  have "char_of (of_char c + 32 :: nat) \<noteq> c" if "(of_char c :: nat) < 128"
  proof
    assume "char_of (of_char c + 32 :: nat) = c"
    then have "(of_char (char_of (of_char c + 32 :: nat)) :: nat) = of_char c" by simp
    then have "(of_char c + 32 :: nat) mod 256 = of_char c" by (simp add: of_char_of)
    with that show False by simp
  qed
  then show ?thesis by (auto simp: ToLower1_def)
qed

lemma index0_Split: "index0 (Split s c) = Inr (takeWhile (\<lambda>x. x \<noteq> c) s)"
  by (induction s) (auto simp: index0_def split: list.splits)

lemma jsonName_eq:
  "jsonName f =
     Inr (takeWhile (\<lambda>x. x \<noteq> CHR '','')
           (if TrimSpace (TagGet (FTag f) ''json'') = [] \<or>
               HasPrefix (TrimSpace (TagGet (FTag f) ''json'')) '',''
            then FName f
            else takeWhile (\<lambda>x. x \<noteq> CHR '','') (TrimSpace (TagGet (FTag f) ''json''))))"
  by (simp add: jsonName_def index0_Split Let_def)

lemma fieldStep_required_subset:
  assumes "fieldStep rec h reg f a = Some (Inr b)" and "set (snd a) \<subseteq> dom (fst a)"
  shows "set (snd b) \<subseteq> dom (fst b)"
proof -
  have "\<exists>y. (fst a ++ ps) x = Some y" if "x \<in> set (snd a)" for ps x
    using assms(2) that by (cases "ps x") (auto simp: map_add_def)
  with assms show ?thesis
    by (auto simp: fieldStep_def Let_def
        split: list.splits if_splits option.splits sum.splits)
qed

lemma exported_iff:
  "exported f \<longleftrightarrow>
     (\<exists>c cs. FName f = c # cs \<and>
        \<not> ((of_char c :: nat) < 128 \<and> \<not> (65 \<le> (of_char c :: nat) \<and> (of_char c :: nat) \<le> 90)))"
  by (auto simp: exported_def ToLower1_same split: list.splits)

lemma fieldStep_skipped:
  "\<not> exported f \<Longrightarrow> FName f \<noteq> [] \<Longrightarrow> fieldStep rec h reg f acc = Some (Inr acc)"
  by (auto simp: fieldStep_def exported_def split: list.splits)

lemma fieldStep_anonymous:
  "exported f \<Longrightarrow> FAnonymous f \<Longrightarrow>
   fieldStep rec h reg f acc =
     (case rec (FType f) of None \<Rightarrow> None | Some (Inl e) \<Rightarrow> Some (Inl e)
      | Some (Inr r) \<Rightarrow> Some (Inr (fst acc ++ fst r, snd acc)))"
  by (auto simp: fieldStep_def exported_def split: list.splits option.splits sum.splits)

lemma fieldStep_named:
  "exported f \<Longrightarrow> \<not> FAnonymous f \<Longrightarrow>
   fieldStep rec h reg f acc =
     (case jsonName f of Inl e \<Rightarrow> Some (Inl e)
      | Inr name \<Rightarrow>
          if name = ''-'' then Some (Inr acc)
          else Some (Inr ((fst acc)(name \<mapsto> extraInfo f
                 (if Contains (TagGet (FTag f) ''json'') '',string''
                  then Property (FType f) String_pt [] [] None None [] [] []
                  else inspect h reg (FType f))),
               if TagLookup (FTag f) ''required'' \<noteq> None then snd acc @ [name] else snd acc)))"
  by (auto simp: fieldStep_def exported_def Let_def split: list.splits sum.splits)

lemma buildProperty_Struct:
  "buildProperty (Suc n) h reg (Struct i s) = fieldsLoop n h reg (structFields h i) (Map.empty, [])"
  by (simp add: fieldsLoop_def)

lemma buildProperty_not_Struct:
  "tKind t \<noteq> KStruct \<Longrightarrow> buildProperty n h reg t \<noteq> Some (Inr r)"
  by (cases n; cases t) simp_all

lemma fieldsLoop_Cons:
  "fieldsLoop n h reg (f # fs) acc =
     (case fieldStep (buildProperty n h reg) h reg f acc of None \<Rightarrow> None
      | Some (Inl e) \<Rightarrow> Some (Inl e) | Some (Inr acc') \<Rightarrow> fieldsLoop n h reg fs acc')"
  by (auto simp: fieldsLoop_def split: option.splits sum.splits)

lemma fieldsLoop_Nil: "fieldsLoop n h reg [] acc = Some (Inr acc)"
  by (simp add: fieldsLoop_def)

lemma fieldsLoop_append:
  "fieldsLoop n h reg (xs @ ys) acc =
     (case fieldsLoop n h reg xs acc of None \<Rightarrow> None | Some (Inl e) \<Rightarrow> Some (Inl e)
      | Some (Inr acc') \<Rightarrow> fieldsLoop n h reg ys acc')"
  by (auto simp: fieldsLoop_def foldR_append split: option.splits sum.splits)

text \<open>C9. When the field enumerator returns, every name in the list of required names is a
  key of the returned mapping; moreover each such name is the json name of a field of the
  struct that is exported, not embedded, carries the \<open>required\<close> tag and is not omitted.\<close>

theorem required_names_are_properties:
  assumes "buildProperty n h reg t = Some (Inr (props, req))"
  shows "set req \<subseteq> dom props \<and>
    (\<forall>name \<in> set req. \<exists>i s f. t = Struct i s \<and> f \<in> set (structFields h i) \<and>
        exported f \<and> \<not> FAnonymous f \<and> TagLookup (FTag f) ''required'' \<noteq> None \<and>
        jsonName f = Inr name \<and> name \<noteq> ''-'')"
proof -
  obtain m where n: "n = Suc m" using assms by (cases n) auto
  obtain i s where t: "t = Struct i s"
    using assms buildProperty_not_Struct [of t n h reg "(props, req)"] by (cases t) auto
  let ?step = "fieldStep (buildProperty m h reg) h reg"
  have run: "foldR ?step (structFields h i) (Map.empty, []) = Some (Inr (props, req))"
    using assms n t by simp
  have sub: "set (snd (props, req)) \<subseteq> dom (fst (props, req))"
    by (rule foldR_invariant [OF run, where P = "\<lambda>a. set (snd a) \<subseteq> dom (fst a)"])
       (auto dest: fieldStep_required_subset)
  let ?Q = "\<lambda>a :: (string \<rightharpoonup> Property) \<times> string list.
     \<forall>name \<in> set (snd a). \<exists>f. f \<in> set (structFields h i) \<and>
        exported f \<and> \<not> FAnonymous f \<and> TagLookup (FTag f) ''required'' \<noteq> None \<and>
        jsonName f = Inr name \<and> name \<noteq> ''-''"
  have "?Q (props, req)"
  proof (rule foldR_invariant [OF run, where P = ?Q])
    show "?Q (Map.empty, [])" by simp
  next
    fix f a b
    assume f: "f \<in> set (structFields h i)" and a: "?Q a" and st: "?step f a = Some (Inr b)"
    show "?Q b"
    proof (cases "exported f")
      case False
      have "b = a" using st False
        by (auto simp: fieldStep_def exported_def split: list.splits)
      then show ?thesis using a by simp
    next
      case True
      show ?thesis
      proof (cases "FAnonymous f")
        case True
        have "snd b = snd a" using st True \<open>exported f\<close>
          by (auto simp: fieldStep_anonymous split: option.splits sum.splits)
        then show ?thesis using a by simp
      next
        case False
        obtain name where nm: "jsonName f = Inr name"
          by (auto simp: jsonName_eq)
        have "snd b = snd a \<or>
              (snd b = snd a @ [name] \<and> name \<noteq> ''-'' \<and> TagLookup (FTag f) ''required'' \<noteq> None)"
          using st False \<open>exported f\<close> nm
          by (auto simp: fieldStep_named split: if_splits)
        then show ?thesis
        proof
          assume "snd b = snd a"
          then show ?thesis using a by simp
        next
          assume *: "snd b = snd a @ [name] \<and> name \<noteq> ''-'' \<and>
                     TagLookup (FTag f) ''required'' \<noteq> None"
          show ?thesis
          proof
            fix x assume "x \<in> set (snd b)"
            then have "x \<in> set (snd a) \<or> x = name" using * by auto
            then show "\<exists>f. f \<in> set (structFields h i) \<and> exported f \<and> \<not> FAnonymous f \<and>
                TagLookup (FTag f) ''required'' \<noteq> None \<and> jsonName f = Inr x \<and> x \<noteq> ''-''"
              using a f \<open>exported f\<close> False nm * by blast
          qed
        qed
      qed
    qed
  qed
  then show ?thesis using sub t by auto
qed


lemmas ex_types = tInner_def tOuter_def tNode_def tHolder_def tSpecialType_def tParent_def
  tBase_def tBroken_def tTagged_def tPet_def tPair_def tLowerBase_def
  tWrapper_def tInt_def tUint_def tStr_def

lemmas ex_fields = fGrid_def fX_def fNext_def fKids_def fS_def fSecret_def fBase_def
  fTitle_def fID_def fBasePtr_def fSpaced_def fAlias_def fHidden_def fPlain_def fName_def
  fTags_def fA_def fB_def fLowerBase_def

lemmas ex_consts = Unknown_def Integer_def Number_def Boolean_def String_pt_def Array_pt_def
  Object_pt_def FormatNone_def FormatInt32_def FormatInt64_def FormatDouble_def
  FormatFloat_def Get_def ptMapping_def Register_def TagGet_def TagLookup_def

lemmas ex_eval = exHost_def exFields_def ex_fields ex_types ex_consts fieldStep_def
  ToLower1_same jsonName_eq TrimSpace_def spaceRunes_def extraInfo_def Let_def
  set_Example_def set_Description_def set_Enum_def fieldsLoop_def propertyAt_def
  requiredOf_def

lemma ex_exported:
  "exported fGrid" "exported fX" "exported fNext" "exported fKids" "exported fS"
  "exported fSecret" "exported fBase" "exported fTitle" "exported fID" "exported fBasePtr"
  "exported fSpaced" "exported fAlias" "exported fHidden" "exported fPlain" "exported fName"
  "exported fTags"
  by (simp_all add: exported_iff ex_fields)

lemma ex_jsonName:
  "jsonName fName = Inr ''Name''" "jsonName fTags = Inr ''Tags''"
  "jsonName fID = Inr ''id''" "jsonName fTitle = Inr ''title''"
  "jsonName fSpaced = Inr ''label''" "jsonName fAlias = Inr ''alias''"
  "jsonName fHidden = Inr ''-''" "jsonName fPlain = Inr ''Plain''"
  "jsonName fS = Inr ''S''" "jsonName fGrid = Inr ''Grid''" "jsonName fX = Inr ''X''"
  "jsonName fNext = Inr ''Next''" "jsonName fKids = Inr ''Kids''"
  by (simp_all add: jsonName_eq ex_fields TagGet_def TagLookup_def TrimSpace_def spaceRunes_def)

lemma ex_Pet:
  "buildProperty (Suc 0) exHost ptMapping tPet =
     Some (Inr ([''Name'' \<mapsto> Property tStr ''string'' [] [] None None [] [] [],
                 ''Tags'' \<mapsto> Property tStr ''array'' [] []
                    (Some (Property tStr ''string'' [] [] None None [] [] [])) None [] [] []],
                [''Tags'']))"
  by (simp add: ex_eval)


text \<open>The record \<open>Pet\<close> of the specification: the outcome of the enumerator, and the
  instance of the property for it.\<close>

theorem required_names_are_properties_witness:
  "buildProperty (Suc 0) exHost ptMapping tPet =
     Some (Inr ([''Name'' \<mapsto> Property tStr ''string'' [] [] None None [] [] [],
                 ''Tags'' \<mapsto> Property tStr ''array'' [] []
                    (Some (Property tStr ''string'' [] [] None None [] [] [])) None [] [] []],
                [''Tags''])) \<and>
   set [''Tags''] \<subseteq> dom [''Name'' \<mapsto> Property tStr ''string'' [] [] None None [] [] [],
                 ''Tags'' \<mapsto> Property tStr ''array'' [] []
                    (Some (Property tStr ''string'' [] [] None None [] [] [])) None [] [] []]"
  using required_names_are_properties [OF ex_Pet] ex_Pet by blast

text \<open>C7, as stated, fails: \<open>Wrapper\<close> embeds the record \<open>base\<close>, whose name is not exported. The
  enumeration of \<open>base\<close> gives the property \<open>id\<close>, and the enumeration of \<open>Wrapper\<close> gives the
  empty mapping: the loop skips the field in line 59, before it looks at \<open>Anonymous\<close>.\<close>

theorem embedded_fields_spliced_counterexample:
  "FAnonymous fLowerBase \<and> FType fLowerBase = tLowerBase \<and>
   structFields exHost 12 = [fLowerBase] \<and>
   propertyAt (buildProperty (Suc 0) exHost ptMapping tLowerBase) ''id'' =
     Some (Property tInt ''integer'' ''int32'' [] None None [] [] []) \<and>
   propertyAt (buildProperty (Suc (Suc 0)) exHost ptMapping tWrapper) ''id'' = None \<and>
   buildProperty (Suc (Suc 0)) exHost ptMapping tWrapper = Some (Inr (Map.empty, []))"
  by (simp add: ex_eval)

text \<open>C7, amended. For a struct with an exported embedded field \<open>f\<close> between the fields \<open>pre\<close> and
  \<open>post\<close>: when the fields before it have produced the mapping \<open>props\<close> and the required
  names \<open>req\<close>, and the enumeration of the embedded type returns the mapping \<open>ps\<close> and the
  required names \<open>rs\<close>, the enumerator goes on with the later fields from the mapping \<open>props\<close>
  overwritten by \<open>ps\<close> and from the required names \<open>req\<close>: \<open>rs\<close> is discarded.\<close>

theorem embedded_fields_spliced_required_dropped:
  assumes "structFields h i = pre @ f # post" and "exported f" and "FAnonymous f"
    and "fieldsLoop n h reg pre (Map.empty, []) = Some (Inr (props, req))"
    and "buildProperty n h reg (FType f) = Some (Inr (ps, rs))"
  shows "buildProperty (Suc n) h reg (Struct i s) = fieldsLoop n h reg post (props ++ ps, req)"
  using assms
  by (simp add: buildProperty_Struct fieldsLoop_append fieldsLoop_Cons fieldStep_anonymous
      del: buildProperty.simps)

lemma ex_Base:
  "buildProperty (Suc 0) exHost ptMapping tBase =
     Some (Inr ([''id'' \<mapsto> Property tInt ''integer'' ''int32'' [] None None [] [] []], [''id'']))"
  by (simp add: ex_eval)

text \<open>\<open>Parent\<close> embeds \<open>Base\<close>, whose field \<open>id\<close> is required: \<open>id\<close> is a property of
  \<open>Parent\<close>, and the required list of \<open>Parent\<close> is empty.\<close>

theorem embedded_fields_spliced_required_dropped_witness:
  "structFields exHost 5 = [] @ fBase # [fTitle] \<and> exported fBase \<and> FAnonymous fBase \<and>
   fieldsLoop (Suc 0) exHost ptMapping [] (Map.empty, []) = Some (Inr (Map.empty, [])) \<and>
   buildProperty (Suc 0) exHost ptMapping (FType fBase) =
     Some (Inr ([''id'' \<mapsto> Property tInt ''integer'' ''int32'' [] None None [] [] []], [''id''])) \<and>
   buildProperty (Suc (Suc 0)) exHost ptMapping (Struct 5 ''main.Parent'') =
     Some (Inr ([''id'' \<mapsto> Property tInt ''integer'' ''int32'' [] None None [] [] [],
                 ''title'' \<mapsto> Property tStr ''string'' [] [] None None [] [] []], []))"
proof -
  have a: "structFields exHost 5 = [] @ fBase # [fTitle]"
    by (simp add: exHost_def exFields_def)
  have b: "exported fBase" by (rule ex_exported)
  have c: "FAnonymous fBase" by (simp add: fBase_def)
  have d: "fieldsLoop (Suc 0) exHost ptMapping [] (Map.empty, []) = Some (Inr (Map.empty, []))"
    by (simp add: fieldsLoop_Nil)
  have e: "buildProperty (Suc 0) exHost ptMapping (FType fBase) =
     Some (Inr ([''id'' \<mapsto> Property tInt ''integer'' ''int32'' [] None None [] [] []], [''id'']))"
    using ex_Base by (simp add: fBase_def)
  have f: "fieldsLoop (Suc 0) exHost ptMapping [fTitle]
             (Map.empty ++ [''id'' \<mapsto> Property tInt ''integer'' ''int32'' [] None None [] [] []], []) =
     Some (Inr ([''id'' \<mapsto> Property tInt ''integer'' ''int32'' [] None None [] [] [],
                 ''title'' \<mapsto> Property tStr ''string'' [] [] None None [] [] []], []))"
    by (simp add: ex_eval)
  note g = embedded_fields_spliced_required_dropped [OF a b c d e, of "''main.Parent''"]
  have "buildProperty (Suc (Suc 0)) exHost ptMapping (Struct 5 ''main.Parent'') =
     Some (Inr ([''id'' \<mapsto> Property tInt ''integer'' ''int32'' [] None None [] [] [],
                 ''title'' \<mapsto> Property tStr ''string'' [] [] None None [] [] []], []))"
    unfolding g by (rule f)
  with a b c d e show ?thesis by blast
qed

lemma buildProperty_Ptr_never_returns: "buildProperty n h reg (Ptr t) \<noteq> Some (Inr r)"
  by (rule buildProperty_not_Struct) simp

text \<open>C10. For a struct with an exported embedded field of pointer type the field enumerator
  never returns a result, whatever the fuel; and once the fields before the embedded one
  have been enumerated, the recursive call on the pointer descriptor panics in
  \<open>NumField\<close>, and so does the enumeration of the struct.\<close>

theorem embedded_pointer_panics:
  assumes "structFields h i = pre @ f # post" and "exported f" and "FAnonymous f"
    and "FType f = Ptr t'"
  shows "(\<forall>n r. buildProperty n h reg (Struct i s) \<noteq> Some (Inr r)) \<and>
    (\<forall>n acc. fieldsLoop (Suc n) h reg pre (Map.empty, []) = Some (Inr acc) \<longrightarrow>
        buildProperty (Suc (Suc n)) h reg (Struct i s) = Some (Inl NumFieldOfNonStruct))"
proof (intro conjI allI impI)
  fix n r
  show "buildProperty n h reg (Struct i s) \<noteq> Some (Inr r)"
  proof (cases n)
    case 0
    then show ?thesis by simp
  next
    case (Suc m)
    show ?thesis
    proof
      assume "buildProperty n h reg (Struct i s) = Some (Inr r)"
      then have run: "foldR (fieldStep (buildProperty m h reg) h reg) (structFields h i)
          (Map.empty, []) = Some (Inr r)"
        using Suc by simp
      have mem: "f \<in> set (structFields h i)" using assms(1) by simp
      obtain a b where "fieldStep (buildProperty m h reg) h reg f a = Some (Inr b)"
        using foldR_all_steps_return [OF run mem] by auto
      then have "\<exists>q. buildProperty m h reg (Ptr t') = Some (Inr q)"
        unfolding fieldStep_anonymous [OF assms(2,3)] assms(4)
        by (cases "buildProperty m h reg (Ptr t')") (auto split: sum.splits)
      then show False
        using buildProperty_Ptr_never_returns [of m h reg t'] by auto
    qed
  qed
next
  fix n acc
  assume pre: "fieldsLoop (Suc n) h reg pre (Map.empty, []) = Some (Inr acc)"
  have p: "buildProperty (Suc n) h reg (Ptr t') = Some (Inl NumFieldOfNonStruct)"
    by simp
  have "fieldStep (buildProperty (Suc n) h reg) h reg f acc = Some (Inl NumFieldOfNonStruct)"
    unfolding fieldStep_anonymous [OF assms(2,3)] assms(4) p by simp
  then have "fieldsLoop (Suc n) h reg (f # post) acc = Some (Inl NumFieldOfNonStruct)"
    unfolding fieldsLoop_Cons by simp
  then have "fieldsLoop (Suc n) h reg (pre @ f # post) (Map.empty, []) =
      Some (Inl NumFieldOfNonStruct)"
    unfolding fieldsLoop_append pre by simp
  then show "buildProperty (Suc (Suc n)) h reg (Struct i s) = Some (Inl NumFieldOfNonStruct)"
    unfolding buildProperty_Struct assms(1) .
qed

text \<open>\<open>Broken\<close> embeds \<open>*Base\<close>.\<close>

theorem embedded_pointer_panics_witness:
  "structFields exHost 7 = [] @ fBasePtr # [] \<and> exported fBasePtr \<and> FAnonymous fBasePtr \<and>
   FType fBasePtr = Ptr tBase \<and>
   fieldsLoop (Suc 0) exHost ptMapping [] (Map.empty, []) = Some (Inr (Map.empty, [])) \<and>
   buildProperty (Suc (Suc 0)) exHost ptMapping tBroken = Some (Inl NumFieldOfNonStruct)"
proof -
  have a: "structFields exHost 7 = [] @ fBasePtr # []"
    by (simp add: exHost_def exFields_def)
  have b: "exported fBasePtr" by (rule ex_exported)
  have c: "FAnonymous fBasePtr" by (simp add: fBasePtr_def)
  have d: "FType fBasePtr = Ptr tBase" by (simp add: fBasePtr_def)
  have e: "fieldsLoop (Suc 0) exHost ptMapping [] (Map.empty, []) = Some (Inr (Map.empty, []))"
    by (simp add: fieldsLoop_Nil)
  have "buildProperty (Suc (Suc 0)) exHost ptMapping (Struct 7 ''main.Broken'') =
      Some (Inl NumFieldOfNonStruct)"
    using embedded_pointer_panics [OF a b c d, of ptMapping "''main.Broken''"] e by blast
  then have "buildProperty (Suc (Suc 0)) exHost ptMapping tBroken = Some (Inl NumFieldOfNonStruct)"
    by (simp only: tBroken_def)
  with a b c d e show ?thesis by blast
qed


lemma exported_not_dash: "exported f \<Longrightarrow> FName f \<noteq> ''-''"
  by (auto simp: exported_iff)

text \<open>C6, as stated, fails: for the annotation \<open>json:" label"\<close> the first comma-separated
  segment is \<open>" label"\<close>, with the space, and the field is exposed as \<open>label\<close>.\<close>

theorem externalName_as_specified_counterexample:
  "externalName_spec fSpaced = Some '' label'' \<and>
   propertyAt (buildProperty (Suc 0) exHost ptMapping tTagged) '' label'' = None \<and>
   propertyAt (buildProperty (Suc 0) exHost ptMapping tTagged) ''label'' =
     Some (Property tStr ''string'' [] [] None None [] [] [])"
  by (simp add: ex_eval externalName_spec_def)

text \<open>C6, amended. Let \<open>a\<close> be the json annotation of an exported field that is not
  embedded, with the white space around it removed (\<open>a\<close> is empty when there is no
  annotation), and let the declared name contain no comma. If \<open>a\<close> is empty or begins with a
  comma, the field is entered under its declared name. If \<open>a\<close> is \<open>-\<close>, the loop goes on with
  the mapping and the required names unchanged. Otherwise, if the first comma-separated
  segment of \<open>a\<close> is not \<open>-\<close>, the field is entered under that segment.\<close>

theorem externalName_of_field:
  assumes "exported f" and "\<not> FAnonymous f" and "CHR '','' \<notin> set (FName f)"
  shows
   "(TrimSpace (TagGet (FTag f) ''json'') = [] \<or>
       HasPrefix (TrimSpace (TagGet (FTag f) ''json'')) '','' \<longrightarrow>
       (\<exists>p req'. fieldsLoop n h reg (f # fs) (props, req) =
                  fieldsLoop n h reg fs (props(FName f \<mapsto> p), req'))) \<and>
    (TrimSpace (TagGet (FTag f) ''json'') = ''-'' \<longrightarrow>
       fieldsLoop n h reg (f # fs) (props, req) = fieldsLoop n h reg fs (props, req)) \<and>
    (TrimSpace (TagGet (FTag f) ''json'') \<noteq> [] \<and>
       \<not> HasPrefix (TrimSpace (TagGet (FTag f) ''json'')) '','' \<and>
       takeWhile (\<lambda>c. c \<noteq> CHR '','') (TrimSpace (TagGet (FTag f) ''json'')) \<noteq> ''-'' \<longrightarrow>
       (\<exists>p req'. fieldsLoop n h reg (f # fs) (props, req) =
                  fieldsLoop n h reg fs
                    (props(takeWhile (\<lambda>c. c \<noteq> CHR '','')
                             (TrimSpace (TagGet (FTag f) ''json'')) \<mapsto> p), req')))"
proof (intro conjI impI)
  let ?a = "TrimSpace (TagGet (FTag f) ''json'')"
  have nm: "takeWhile (\<lambda>c. c \<noteq> CHR '','') (FName f) = FName f"
    using assms(3) by (auto simp: takeWhile_eq_all_conv)
  have step: "fieldsLoop n h reg (f # fs) (props, req) =
      fieldsLoop n h reg fs (props(name \<mapsto> extraInfo f
                 (if Contains (TagGet (FTag f) ''json'') '',string''
                  then Property (FType f) String_pt [] [] None None [] [] []
                  else inspect h reg (FType f))),
               if TagLookup (FTag f) ''required'' \<noteq> None then req @ [name] else req)"
    if "jsonName f = Inr name" and "name \<noteq> ''-''" for name
    using that by (simp add: fieldsLoop_Cons fieldStep_named [OF assms(1,2)])
  {
    assume "?a = [] \<or> HasPrefix ?a '',''"
    then have "jsonName f = Inr (FName f)"
      using nm by (auto simp: jsonName_eq)
    from step [OF this exported_not_dash [OF assms(1)]]
    show "\<exists>p req'. fieldsLoop n h reg (f # fs) (props, req) =
                  fieldsLoop n h reg fs (props(FName f \<mapsto> p), req')"
      by blast
  }
  {
    assume "?a = ''-''"
    then have "jsonName f = Inr ''-''"
      by (simp add: jsonName_eq)
    then show "fieldsLoop n h reg (f # fs) (props, req) = fieldsLoop n h reg fs (props, req)"
      by (simp add: fieldsLoop_Cons fieldStep_named [OF assms(1,2)])
  }
  {
    assume *: "?a \<noteq> [] \<and> \<not> HasPrefix ?a '','' \<and> takeWhile (\<lambda>c. c \<noteq> CHR '','') ?a \<noteq> ''-''"
    then have "jsonName f = Inr (takeWhile (\<lambda>c. c \<noteq> CHR '','') ?a)"
      by (simp add: jsonName_eq)
    from step [OF this] *
    show "\<exists>p req'. fieldsLoop n h reg (f # fs) (props, req) =
                  fieldsLoop n h reg fs
                    (props(takeWhile (\<lambda>c. c \<noteq> CHR '','') ?a \<mapsto> p), req')"
      by blast
  }
qed

text \<open>The fields \<open>Alias\<close>, \<open>Hidden\<close> and \<open>Plain\<close> of \<open>Tagged\<close>, one for each case.\<close>

theorem externalName_of_field_witness:
  "(exported fAlias \<and> \<not> FAnonymous fAlias \<and> CHR '','' \<notin> set (FName fAlias) \<and>
    TrimSpace (TagGet (FTag fAlias) ''json'') = ''alias,omitempty'' \<and>
    (\<exists>p req'. fieldsLoop 0 exHost ptMapping [fAlias] (Map.empty, []) =
               fieldsLoop 0 exHost ptMapping [] (Map.empty(''alias'' \<mapsto> p), req'))) \<and>
   (exported fHidden \<and> \<not> FAnonymous fHidden \<and> CHR '','' \<notin> set (FName fHidden) \<and>
    TrimSpace (TagGet (FTag fHidden) ''json'') = ''-'' \<and>
    fieldsLoop 0 exHost ptMapping [fHidden] (Map.empty, []) =
      fieldsLoop 0 exHost ptMapping [] (Map.empty, [])) \<and>
   (exported fPlain \<and> \<not> FAnonymous fPlain \<and> CHR '','' \<notin> set (FName fPlain) \<and>
    HasPrefix (TrimSpace (TagGet (FTag fPlain) ''json'')) '','' \<and>
    (\<exists>p req'. fieldsLoop 0 exHost ptMapping [fPlain] (Map.empty, []) =
               fieldsLoop 0 exHost ptMapping [] (Map.empty(''Plain'' \<mapsto> p), req')))"
proof (intro conjI)
  have a: "\<not> FAnonymous fAlias" "CHR '','' \<notin> set (FName fAlias)"
    "TrimSpace (TagGet (FTag fAlias) ''json'') = ''alias,omitempty''"
    by (simp_all add: fAlias_def TagGet_def TagLookup_def TrimSpace_def spaceRunes_def)
  have b: "\<not> FAnonymous fHidden" "CHR '','' \<notin> set (FName fHidden)"
    "TrimSpace (TagGet (FTag fHidden) ''json'') = ''-''"
    by (simp_all add: fHidden_def TagGet_def TagLookup_def TrimSpace_def spaceRunes_def)
  have c: "\<not> FAnonymous fPlain" "CHR '','' \<notin> set (FName fPlain)"
    "TrimSpace (TagGet (FTag fPlain) ''json'') = '',omitempty''"
    by (simp_all add: fPlain_def TagGet_def TagLookup_def TrimSpace_def spaceRunes_def)
  note A = externalName_of_field [OF ex_exported(12) a(1,2), of 0 exHost ptMapping "[]" Map.empty "[]"]
  note B = externalName_of_field [OF ex_exported(13) b(1,2), of 0 exHost ptMapping "[]" Map.empty "[]"]
  note C = externalName_of_field [OF ex_exported(14) c(1,2), of 0 exHost ptMapping "[]" Map.empty "[]"]
  show "exported fAlias" "exported fHidden" "exported fPlain" by (rule ex_exported)+
  show "\<not> FAnonymous fAlias" "CHR '','' \<notin> set (FName fAlias)"
    "TrimSpace (TagGet (FTag fAlias) ''json'') = ''alias,omitempty''" by (rule a)+
  show "\<not> FAnonymous fHidden" "CHR '','' \<notin> set (FName fHidden)"
    "TrimSpace (TagGet (FTag fHidden) ''json'') = ''-''" by (rule b)+
  show "\<not> FAnonymous fPlain" "CHR '','' \<notin> set (FName fPlain)" by (rule c)+
  show "HasPrefix (TrimSpace (TagGet (FTag fPlain) ''json'')) '',''"
    unfolding c(3) by simp
  show "\<exists>p req'. fieldsLoop 0 exHost ptMapping [fAlias] (Map.empty, []) =
               fieldsLoop 0 exHost ptMapping [] (Map.empty(''alias'' \<mapsto> p), req')"
    using A unfolding a(3) by simp
  show "fieldsLoop 0 exHost ptMapping [fHidden] (Map.empty, []) =
      fieldsLoop 0 exHost ptMapping [] (Map.empty, [])"
    using B unfolding b(3) by simp
  show "\<exists>p req'. fieldsLoop 0 exHost ptMapping [fPlain] (Map.empty, []) =
               fieldsLoop 0 exHost ptMapping [] (Map.empty(''Plain'' \<mapsto> p), req')"
    using C unfolding c(3) by (simp add: fPlain_def)
qed

text \<open>C1 at the input of the claim. After \<open>Register("pkg.SpecialType", Integer)\<close> the
  classifier gives integer for the struct type \<open>pkg.SpecialType\<close>, and the property derived
  for the field \<open>S\<close> of that type in \<open>Holder\<close> has the empty kind and a reference by name: the
  struct case of \<open>inspect\<close> clears the kind that the registry gave.\<close>

theorem registered_struct_field_is_reference:
  "Parse (Register ptMapping ''pkg.SpecialType'' Integer) tSpecialType = Integer \<and>
   propertyAt (buildProperty (Suc 0) exHost (Register ptMapping ''pkg.SpecialType'' Integer)
                 tHolder) ''S'' =
     Some (Property tSpecialType [] [] ''#/definitions/pkg.SpecialType'' None None [] [] [])"
  by (simp add: ex_eval)

section \<open>The graph closure\<close>


















































lemma foldR_id: "(\<forall>x\<in>set xs. f x s = Some (Inr s)) \<Longrightarrow> foldR f xs s = Some (Inr s)"
  by (induction xs) simp_all





text \<open>C2 at the input \<open>Outer\<close>, whose field \<open>Grid\<close> is a slice of slices of \<open>Inner\<close>. Whatever
  the orders of the passes, \<open>define\<close> returns the graph with the one object \<open>Outer\<close>. The
  property \<open>Grid\<close> of that object refers to \<open>Inner\<close> by name, in the items of its items, and
  the derived name of \<open>Inner\<close> is not a key of the graph: the loop of \<open>define\<close> follows
  \<open>AdditionalProperties\<close> only, and the \<open>GoType\<close> of the property is the slice of \<open>Inner\<close>.\<close>

theorem nested_slice_reference_dangles:
  "defineObject (Suc 0) exHost ptMapping tOuter = Some (Inr exOuterObject) \<and>
   define (Suc 0) exHost ptMapping (ord # ords) tOuter =
     Some (Inr [''main.Outer'' \<mapsto> exOuterObject]) \<and>
   map_option refsOf (Properties exOuterObject ''Grid'') =
     Some [makeRef exHost (makeName exHost tInner)] \<and>
   makeName exHost tInner \<notin> dom [''main.Outer'' \<mapsto> exOuterObject]"
proof (intro conjI)
  let ?D = "defineObject (Suc 0) exHost ptMapping"
  let ?s = "([''main.Outer'' \<mapsto> exOuterObject], False)"
  show d: "?D tOuter = Some (Inr exOuterObject)"
    by (simp add: ex_eval exOuterObject_def)
  have w: "walk ?D exHost p ?s = Some (Inr ?s)"
    if "Properties exOuterObject pk = Some p" for pk p
    using that
    by (auto simp: exOuterObject_def walk_def visit_def tInner_def split: if_splits)
  have v: "visitObject ?D exHost exOuterObject pks ?s = Some (Inr ?s)" for pks
    unfolding visitObject_def
    by (rule foldR_id) (auto simp: w split: option.splits)
  have "pass ?D exHost ord ?s = Some (Inr ?s)"
    unfolding pass_def
    by (rule foldR_id) (auto simp: v split: option.splits if_splits)
  then show "define (Suc 0) exHost ptMapping (ord # ords) tOuter =
     Some (Inr [''main.Outer'' \<mapsto> exOuterObject])"
    unfolding define_def d by (simp add: exOuterObject_def)
  show "map_option refsOf (Properties exOuterObject ''Grid'') =
     Some [makeRef exHost (makeName exHost tInner)]"
    by (simp add: exOuterObject_def exHost_def tInner_def)
  show "makeName exHost tInner \<notin> dom [''main.Outer'' \<mapsto> exOuterObject]"
    by (simp add: exHost_def tInner_def)
qed











end
